theory Spec2Isabelle
  imports Main "HOL-Library.AList"
begin

section \<open>Configuration and strings\<close>

text \<open>
  \<^verbatim>\<open>DANGEROUS_TOOLS = ["delete_files", "execute_command", "modify_database"]\<close>
  is the same list in \<^verbatim>\<open>agent.py\<close> and \<^verbatim>\<open>agent_without_dynamo.py\<close>.
\<close>

definition DANGEROUS_TOOLS :: "string list" where
  "DANGEROUS_TOOLS = [''delete_files'', ''execute_command'', ''modify_database'']"

text \<open>
  Python's \<^verbatim>\<open>str.lower()\<close> on the ASCII letters. The gate only compares the lowered
  answer with \<^verbatim>\<open>"t"\<close> and \<^verbatim>\<open>"y"\<close>; no character outside \<^verbatim>\<open>A..Z\<close> lowers to one of
  these two, so the other characters are left as they are.
\<close>

definition lower_char :: "char \<Rightarrow> char" where
  "lower_char c =
     (case map_of (zip ''ABCDEFGHIJKLMNOPQRSTUVWXYZ'' ''abcdefghijklmnopqrstuvwxyz'') c of
        Some d \<Rightarrow> d
      | None \<Rightarrow> c)"

definition lower :: "string \<Rightarrow> string" where
  "lower s = map lower_char s"

text \<open>Python truthiness of an optional string: \<^verbatim>\<open>None\<close> and \<^verbatim>\<open>""\<close> are falsy.\<close>

fun truthy :: "string option \<Rightarrow> bool" where
  "truthy None = False"
| "truthy (Some s) = (s \<noteq> [])"

section \<open>The approval gate (\<^verbatim>\<open>ApprovalHook.approve\<close>)\<close>

text \<open>
  The reason payload of an interrupt. The hook always builds a dictionary with the keys
  \<^verbatim>\<open>tool\<close>, \<^verbatim>\<open>input\<close> and \<^verbatim>\<open>message\<close>; the cold resume path tests
  \<^verbatim>\<open>isinstance(reason, dict)\<close>, so a non-dictionary reason is kept as a second case.
  The tool input (a JSON value) is carried as an opaque string.
\<close>

datatype reason = RDict "(string \<times> string) list" | ROther string

record tool_use =
  tu_name :: string
  tu_input :: string

text \<open>
  The hook object: \<^verbatim>\<open>app_name\<close>, \<^verbatim>\<open>session_id\<close> and the dictionary
  \<^verbatim>\<open>pre_approved_tools\<close> (insertion ordered, so an association list).
  The memory-only hook has no such dictionary.
\<close>

record hook =
  app_name :: string
  hook_session_id :: string
  pre_approved_tools :: "(string \<times> string) list"

text \<open>
  What one call of the gate does to its surroundings, in order: reads and writes of
  \<^verbatim>\<open>event.agent.state\<close> (the trust cache), membership tests on the pre-approved
  dictionary, and calls of \<^verbatim>\<open>event.interrupt\<close>.
\<close>

datatype effect =
    StateGet string
  | StateSet string string
  | PreApprovedLookup string
  | InterruptCall string reason

text \<open>
  How the call ends: it returns with \<^verbatim>\<open>event.cancel_tool\<close> unset (the tool runs), it
  returns with \<^verbatim>\<open>event.cancel_tool\<close> set to a message (the tool is skipped), or
  \<^verbatim>\<open>event.interrupt\<close> raises because the engine holds no answer for this interrupt yet
  (the run suspends).
\<close>

datatype verdict =
    Proceed
  | CancelTool string
  | Suspend string reason

type_synonym agent_state = "string \<rightharpoonup> string"

definition trust_key :: "string \<Rightarrow> string \<Rightarrow> string" where
  "trust_key app tool_name = app @ ''-'' @ tool_name @ ''-trust''"

definition interrupt_name :: "string \<Rightarrow> string \<Rightarrow> string" where
  "interrupt_name app tool_name = app @ ''-'' @ tool_name @ ''-approval''"

definition interrupt_reason :: "tool_use \<Rightarrow> reason" where
  "interrupt_reason tu =
     RDict [(''tool'', tu_name tu), (''input'', tu_input tu),
            (''message'', ''Tool '' @ [CHR 0x27] @ tu_name tu @ [CHR 0x27]
                           @ '' requires human approval before execution'')]"

definition denied_message :: "string \<Rightarrow> string" where
  "denied_message tool_name =
     ''User denied execution of '' @ [CHR 0x27] @ tool_name @ [CHR 0x27]"

text \<open>
  The three-way branch on an answer, written twice in \<^verbatim>\<open>agent.py\<close> (lines 197-204
  for a pre-approved answer, lines 219-226 for a live one) and once in
  \<^verbatim>\<open>agent_without_dynamo.py\<close> (lines 81-88), each time with the same tests.
\<close>

definition process_answer ::
  "string \<Rightarrow> string \<Rightarrow> string \<Rightarrow> agent_state \<Rightarrow> verdict \<times> agent_state \<times> effect list" where
  "process_answer app tool_name approval st =
     (if lower approval = ''t''
      then (Proceed, st(trust_key app tool_name \<mapsto> ''trusted''),
            [StateSet (trust_key app tool_name) ''trusted''])
      else if lower approval \<noteq> ''y''
      then (CancelTool (denied_message tool_name), st, [])
      else (Proceed, st, []))"

text \<open>
  \<^verbatim>\<open>ApprovalHook.approve\<close> of \<^verbatim>\<open>agent.py\<close>. The argument \<open>live\<close> is what
  \<^verbatim>\<open>event.interrupt\<close> finds for this interrupt: \<open>Some r\<close> when the engine was resumed
  with the answer \<open>r\<close>, \<open>None\<close> when there is none and the call raises.
\<close>

definition approve ::
  "hook \<Rightarrow> tool_use \<Rightarrow> agent_state \<Rightarrow> string option
     \<Rightarrow> verdict \<times> agent_state \<times> effect list" where
  "approve h tu st live =
     (let tool_name = tu_name tu in
      if tool_name \<notin> set DANGEROUS_TOOLS then (Proceed, st, [])
      else
        let tk = trust_key (app_name h) tool_name in
        if st tk = Some ''trusted'' then (Proceed, st, [StateGet tk])
        else
          (case map_of (pre_approved_tools h) tool_name of
             Some approval \<Rightarrow>
               (case process_answer (app_name h) tool_name approval st of
                  (v, st', es) \<Rightarrow> (v, st', [StateGet tk, PreApprovedLookup tool_name] @ es))
           | None \<Rightarrow>
               (case live of
                  None \<Rightarrow>
                    (Suspend (interrupt_name (app_name h) tool_name) (interrupt_reason tu), st,
                     [StateGet tk, PreApprovedLookup tool_name,
                      InterruptCall (interrupt_name (app_name h) tool_name) (interrupt_reason tu)])
                | Some approval \<Rightarrow>
                    (case process_answer (app_name h) tool_name approval st of
                       (v, st', es) \<Rightarrow>
                         (v, st',
                          [StateGet tk, PreApprovedLookup tool_name,
                           InterruptCall (interrupt_name (app_name h) tool_name)
                             (interrupt_reason tu)] @ es)))))"

text \<open>
  \<^verbatim>\<open>ApprovalHook.approve\<close> of \<^verbatim>\<open>agent_without_dynamo.py\<close>: the same gate without the
  pre-approved branch.
\<close>

definition approve_mem ::
  "string \<Rightarrow> tool_use \<Rightarrow> agent_state \<Rightarrow> string option
     \<Rightarrow> verdict \<times> agent_state \<times> effect list" where
  "approve_mem app tu st live =
     (let tool_name = tu_name tu in
      if tool_name \<notin> set DANGEROUS_TOOLS then (Proceed, st, [])
      else
        let tk = trust_key app tool_name in
        if st tk = Some ''trusted'' then (Proceed, st, [StateGet tk])
        else
          (case live of
             None \<Rightarrow>
               (Suspend (interrupt_name app tool_name) (interrupt_reason tu), st,
                [StateGet tk,
                 InterruptCall (interrupt_name app tool_name) (interrupt_reason tu)])
           | Some approval \<Rightarrow>
               (case process_answer app tool_name approval st of
                  (v, st', es) \<Rightarrow>
                    (v, st',
                     [StateGet tk,
                      InterruptCall (interrupt_name app tool_name) (interrupt_reason tu)]
                     @ es))))"

section \<open>The engine, seen from the orchestrator\<close>

text \<open>
  An interrupt as the engine reports it (\<^verbatim>\<open>interrupt.id\<close>, \<^verbatim>\<open>.name\<close>, \<^verbatim>\<open>.reason\<close>) and as
  the saved state lists it (\<^verbatim>\<open>{"id": .., "name": .., "reason": ..}\<close>).
\<close>

record interrupt =
  int_id :: string
  int_name :: string
  int_reason :: reason

record agent_result =
  stop_reason :: string
  interrupts :: "interrupt list"
  message :: string

text \<open>One entry \<^verbatim>\<open>{"interruptResponse": {"interruptId": .., "response": ..}}\<close>.\<close>

record interrupt_response =
  interruptId :: string
  response :: string

text \<open>
  The engine handle: the hook it was built with and its scratch state (the trust cache).
  The orchestrator never looks inside it.
\<close>

record agent =
  agent_hook :: hook
  agent_scratch :: agent_state

datatype agent_input = Prompt string | Responses "interrupt_response list"

text \<open>
  A call \<^verbatim>\<open>agent(..)\<close> either returns a result, leaving the handle in a new state, or
  raises. The engine itself is outside the repository and is a parameter of the model.
\<close>

datatype run_outcome = Returned agent_result agent | Raised string

type_synonym engine = "agent \<Rightarrow> agent_input \<Rightarrow> run_outcome"

definition new_agent :: "string \<Rightarrow> (string \<times> string) list \<Rightarrow> agent" where
  "new_agent sid pre =
     \<lparr>agent_hook = \<lparr>app_name = ''hitl-demo'', hook_session_id = sid, pre_approved_tools = pre\<rparr>,
      agent_scratch = Map.empty\<rparr>"

section \<open>The host liveness signal\<close>

text \<open>
  \<^verbatim>\<open>app.add_async_task(name, {"session_id": ..})\<close> returns a task identifier chosen by the
  host (a parameter here) and \<^verbatim>\<open>app.complete_async_task(task_id)\<close> reports the task done.
  The host is modelled by the log of both calls.
\<close>

record host =
  added :: "(int \<times> string \<times> string) list"
  completed :: "int list"

definition add_async_task :: "host \<Rightarrow> int \<Rightarrow> string \<Rightarrow> string \<Rightarrow> host" where
  "add_async_task h tid name sid = h\<lparr>added := added h @ [(tid, name, sid)]\<rparr>"

definition complete_async_task :: "host \<Rightarrow> int \<Rightarrow> host" where
  "complete_async_task h tid = h\<lparr>completed := completed h @ [tid]\<rparr>"

section \<open>The durable store (\<^verbatim>\<open>agent.py\<close>, lines 39-161)\<close>

text \<open>
  The saved state \<^verbatim>\<open>{"prompt": .., "interrupts": [..]}\<close>; a key may be missing, since
  \<^verbatim>\<open>get_agent_state\<close> falls back to \<^verbatim>\<open>{}\<close> and its callers read with \<^verbatim>\<open>.get\<close>.
\<close>

record saved_state =
  st_prompt :: "string option"
  st_interrupts :: "interrupt list option"

datatype task_result = ResultMessage string string | ResultError string

text \<open>
  Attribute values of a table item. The three JSON-encoded attributes (\<^verbatim>\<open>reason\<close>,
  \<^verbatim>\<open>state\<close>, \<^verbatim>\<open>result\<close>) are kept decoded.
\<close>

datatype attr = S string | N int | JReason reason | JState saved_state | JResult task_result

type_synonym item = "string \<rightharpoonup> attr"

text \<open>The table, keyed by \<^verbatim>\<open>(session_id, interrupt_id)\<close>.\<close>

type_synonym table = "string \<times> string \<rightharpoonup> item"

text \<open>
  The table operations are those of the external store: \<^verbatim>\<open>put_item\<close> replaces the item
  under its key, \<^verbatim>\<open>get_item\<close> reads it, and \<^verbatim>\<open>update_item\<close> with a \<^verbatim>\<open>SET\<close> expression
  and no condition assigns the named attributes of the item under the key, starting from
  an item holding only the key attributes when there is none.
\<close>

definition put_item :: "table \<Rightarrow> string \<times> string \<Rightarrow> item \<Rightarrow> table" where
  "put_item tbl key it = tbl(key \<mapsto> it)"

definition update_item :: "table \<Rightarrow> string \<times> string \<Rightarrow> (string \<times> attr) list \<Rightarrow> table" where
  "update_item tbl key sets =
     (let old = (case tbl key of
                   Some it \<Rightarrow> it
                 | None \<Rightarrow> map_of [(''session_id'', S (fst key)), (''interrupt_id'', S (snd key))])
      in tbl(key \<mapsto> fold (\<lambda>(k, v) it. it(k \<mapsto> v)) sets old))"

text \<open>The clock: \<^verbatim>\<open>datetime.now()\<close> as ISO text and as a POSIX timestamp.\<close>

record clock =
  iso :: string
  epoch :: int

definition ttl_of :: "clock \<Rightarrow> int" where
  "ttl_of clk = epoch clk + 7 * 86400"

definition save_pending_approval ::
  "table \<Rightarrow> clock \<Rightarrow> string \<Rightarrow> string \<Rightarrow> string \<Rightarrow> reason \<Rightarrow> table" where
  "save_pending_approval tbl clk session_id interrupt_id name rsn =
     put_item tbl (session_id, interrupt_id)
       (map_of [(''session_id'', S session_id), (''interrupt_id'', S interrupt_id),
                (''name'', S name), (''reason'', JReason rsn), (''status'', S ''pending''),
                (''created_at'', S (iso clk)), (''ttl'', N (ttl_of clk))])"

definition update_approval_status ::
  "table \<Rightarrow> clock \<Rightarrow> string \<Rightarrow> string \<Rightarrow> string \<Rightarrow> string \<Rightarrow> string \<Rightarrow> table" where
  "update_approval_status tbl clk session_id interrupt_id status rsp approver =
     update_item tbl (session_id, interrupt_id)
       [(''status'', S status), (''response'', S rsp), (''approver'', S approver),
        (''updated_at'', S (iso clk))]"

definition get_approval_response :: "table \<Rightarrow> string \<Rightarrow> string \<Rightarrow> string option" where
  "get_approval_response tbl session_id interrupt_id =
     (case tbl (session_id, interrupt_id) of
        None \<Rightarrow> None
      | Some it \<Rightarrow>
          if it ''status'' = Some (S ''approved'') \<or> it ''status'' = Some (S ''rejected'')
          then (case it ''response'' of Some (S r) \<Rightarrow> Some r | _ \<Rightarrow> None)
          else None)"

definition save_agent_result :: "table \<Rightarrow> clock \<Rightarrow> string \<Rightarrow> task_result \<Rightarrow> table" where
  "save_agent_result tbl clk session_id res =
     put_item tbl (session_id, ''__result__'')
       (map_of [(''session_id'', S session_id), (''interrupt_id'', S ''__result__''),
                (''status'', S ''completed''), (''result'', JResult res),
                (''created_at'', S (iso clk)), (''ttl'', N (ttl_of clk))])"

definition get_agent_result :: "table \<Rightarrow> string \<Rightarrow> task_result option" where
  "get_agent_result tbl session_id =
     (case tbl (session_id, ''__result__'') of
        None \<Rightarrow> None
      | Some it \<Rightarrow> (case it ''result'' of Some (JResult r) \<Rightarrow> Some r | _ \<Rightarrow> None))"

definition save_agent_state :: "table \<Rightarrow> clock \<Rightarrow> string \<Rightarrow> saved_state \<Rightarrow> table" where
  "save_agent_state tbl clk session_id st =
     put_item tbl (session_id, ''__state__'')
       (map_of [(''session_id'', S session_id), (''interrupt_id'', S ''__state__''),
                (''status'', S ''interrupted''), (''state'', JState st),
                (''created_at'', S (iso clk)), (''ttl'', N (ttl_of clk))])"

text \<open>
  \<^verbatim>\<open>get_agent_state\<close>: the item's \<^verbatim>\<open>state\<close> attribute, and the empty dictionary for an
  item without one.
\<close>

definition get_agent_state :: "table \<Rightarrow> string \<Rightarrow> saved_state option" where
  "get_agent_state tbl session_id =
     (case tbl (session_id, ''__state__'') of
        None \<Rightarrow> None
      | Some it \<Rightarrow>
          (case it ''state'' of
             Some (JState st) \<Rightarrow> Some st
           | _ \<Rightarrow> Some \<lparr>st_prompt = None, st_interrupts = None\<rparr>))"

text \<open>\<^verbatim>\<open>if saved_state:\<close> a missing item and the empty dictionary are both falsy.\<close>

fun state_truthy :: "saved_state option \<Rightarrow> bool" where
  "state_truthy None = False"
| "state_truthy (Some st) = (st_prompt st \<noteq> None \<or> st_interrupts st \<noteq> None)"

section \<open>Requests, replies and session registry\<close>

text \<open>The request payload: a dictionary of text fields.\<close>

type_synonym payload = "string \<rightharpoonup> string"

text \<open>\<^verbatim>\<open>payload.get(key, default)\<close>.\<close>

definition payload_get :: "payload \<Rightarrow> string \<Rightarrow> string \<Rightarrow> string" where
  "payload_get pl k d = (case pl k of None \<Rightarrow> d | Some v \<Rightarrow> v)"

text \<open>
  One entry of \<^verbatim>\<open>session_states\<close>. Every entry the code stores has a \<^verbatim>\<open>status\<close>; the
  other keys are present or not. \<^verbatim>\<open>prompt\<close> and \<^verbatim>\<open>task_id\<close> are stored by the
  memory-only variant alone.
\<close>

record session_state =
  ss_agent :: "agent option"
  ss_result :: "agent_result option"
  ss_status :: string
  ss_message :: "string option"
  ss_error :: "string option"
  ss_prompt :: "string option"
  ss_task_id :: "int option"

text \<open>
  The reply dictionaries, one constructor for each shape the handlers return (the fixed
  \<^verbatim>\<open>message\<close> texts of the success replies are left out).
\<close>

datatype reply =
    Error string
  | ErrorPending string "interrupt list"
  | ErrorInterrupt string interrupt
  | Started string int
  | Approved string string string
  | Rejected string string string
  | Resuming string int
  | ResumingPreApproved string int "string list"
  | StatusInMemory string string
  | StatusInterrupted string "interrupt list"
  | StatusStored string string

text \<open>
  The background thread a handler starts, with what its closure captured:
  the task identifier and, for a cold resumption, the pre-approved answers and the
  original prompt, for a fast one the cached engine handle and the responses.
\<close>

datatype job =
    BackgroundWork int string
  | ColdResumeWork int "(string \<times> string) list" string
  | FastResumeWork int agent "interrupt_response list"

record world =
  table :: table
  session_states :: "string \<rightharpoonup> session_state"
  app :: host

definition waiting_state :: "agent \<Rightarrow> agent_result \<Rightarrow> session_state" where
  "waiting_state ag res =
     \<lparr>ss_agent = Some ag, ss_result = Some res, ss_status = ''waiting_approval'',
      ss_message = None, ss_error = None, ss_prompt = None, ss_task_id = None\<rparr>"

definition completed_state :: "string \<Rightarrow> session_state" where
  "completed_state msg =
     \<lparr>ss_agent = None, ss_result = None, ss_status = ''completed'',
      ss_message = Some msg, ss_error = None, ss_prompt = None, ss_task_id = None\<rparr>"

definition error_state :: "string \<Rightarrow> session_state" where
  "error_state e =
     \<lparr>ss_agent = None, ss_result = None, ss_status = ''error'',
      ss_message = None, ss_error = Some e, ss_prompt = None, ss_task_id = None\<rparr>"

section \<open>The orchestrator with the durable store (\<^verbatim>\<open>agent.py\<close>)\<close>

definition save_interrupts :: "table \<Rightarrow> clock \<Rightarrow> string \<Rightarrow> interrupt list \<Rightarrow> table" where
  "save_interrupts tbl clk sid ints =
     fold (\<lambda>i t. save_pending_approval t clk sid (int_id i) (int_name i) (int_reason i)) ints tbl"

definition start_agent_task :: "world \<Rightarrow> int \<Rightarrow> payload \<Rightarrow> string \<Rightarrow> reply \<times> job \<times> world" where
  "start_agent_task w task_id pl session_id =
     (let prompt = payload_get pl ''prompt'' ''Hello!''
      in (Started session_id task_id, BackgroundWork task_id prompt,
          w\<lparr>app := add_async_task (app w) task_id ''agent_processing'' session_id\<rparr>))"

text \<open>
  \<^verbatim>\<open>background_work\<close> of \<^verbatim>\<open>start_agent_task\<close>: the \<^verbatim>\<open>try\<close> body, the \<^verbatim>\<open>except\<close>
  handler for a raising engine, and the \<^verbatim>\<open>finally\<close> clause last.
\<close>

definition background_work ::
  "engine \<Rightarrow> clock \<Rightarrow> string \<Rightarrow> string \<Rightarrow> int \<Rightarrow> world \<Rightarrow> world" where
  "background_work eng clk session_id prompt task_id w =
     (let w1 =
        (case eng (new_agent session_id []) (Prompt prompt) of
           Returned res ag \<Rightarrow>
             if stop_reason res = ''interrupt''
             then w\<lparr>table :=
                      save_agent_state (save_interrupts (table w) clk session_id (interrupts res))
                        clk session_id
                        \<lparr>st_prompt = Some prompt, st_interrupts = Some (interrupts res)\<rparr>,
                    session_states := (session_states w)(session_id \<mapsto> waiting_state ag res)\<rparr>
             else w\<lparr>table :=
                      save_agent_result (table w) clk session_id
                        (ResultMessage (message res) (stop_reason res)),
                    session_states :=
                      (session_states w)(session_id \<mapsto> completed_state (message res))\<rparr>
         | Raised e \<Rightarrow>
             w\<lparr>table := save_agent_result (table w) clk session_id (ResultError e),
               session_states := (session_states w)(session_id \<mapsto> error_state e)\<rparr>)
      in w1\<lparr>app := complete_async_task (app w1) task_id\<rparr>)"

definition approve_request :: "world \<Rightarrow> clock \<Rightarrow> string \<Rightarrow> payload \<Rightarrow> reply \<times> world" where
  "approve_request w clk session_id pl =
     (let rsp = payload_get pl ''response'' ''y'';
          approver = payload_get pl ''approver'' ''cli''
      in if \<not> truthy (pl ''interrupt_id'') then (Error ''interrupt_id is required'', w)
         else
           let interrupt_id = the (pl ''interrupt_id'')
           in (Approved session_id interrupt_id rsp,
               w\<lparr>table := update_approval_status (table w) clk session_id interrupt_id
                             ''approved'' rsp approver\<rparr>))"

definition reject_request :: "world \<Rightarrow> clock \<Rightarrow> string \<Rightarrow> payload \<Rightarrow> reply \<times> world" where
  "reject_request w clk session_id pl =
     (let rsn = payload_get pl ''reason'' ''User rejected'';
          approver = payload_get pl ''approver'' ''cli''
      in if \<not> truthy (pl ''interrupt_id'') then (Error ''interrupt_id is required'', w)
         else
           let interrupt_id = the (pl ''interrupt_id'')
           in (Rejected session_id interrupt_id rsn,
               w\<lparr>table := update_approval_status (table w) clk session_id interrupt_id
                             ''rejected'' ''n'' approver\<rparr>))"

text \<open>
  \<^verbatim>\<open>reason.get("tool") if isinstance(reason, dict) else None\<close>, followed by the test
  \<^verbatim>\<open>if tool_name:\<close>.
\<close>

definition reason_tool :: "reason \<Rightarrow> string option" where
  "reason_tool r =
     (case r of
        RDict d \<Rightarrow> (if truthy (map_of d ''tool'') then map_of d ''tool'' else None)
      | ROther _ \<Rightarrow> None)"

text \<open>
  The loop of the cold path (lines 450-460): the pre-approved dictionary and the list of
  interrupts without an answer, both built in the order of the saved interrupts.
\<close>

fun cold_scan ::
  "table \<Rightarrow> string \<Rightarrow> interrupt list \<Rightarrow> (string \<times> string) list \<Rightarrow> interrupt list
     \<Rightarrow> (string \<times> string) list \<times> interrupt list" where
  "cold_scan tbl sid [] pre pending = (pre, pending)"
| "cold_scan tbl sid (i # is) pre pending =
     (case get_approval_response tbl sid (int_id i) of
        None \<Rightarrow> cold_scan tbl sid is pre (pending @ [i])
      | Some r \<Rightarrow>
          if r = [] then cold_scan tbl sid is pre (pending @ [i])
          else (case reason_tool (int_reason i) of
                  Some tool_name \<Rightarrow> cold_scan tbl sid is (AList.update tool_name r pre) pending
                | None \<Rightarrow> cold_scan tbl sid is pre pending))"

text \<open>
  The loop of the fast path (lines 540-554): the responses in order, or the first
  interrupt without an answer.
\<close>

fun fast_scan ::
  "table \<Rightarrow> string \<Rightarrow> interrupt list \<Rightarrow> interrupt_response list
     \<Rightarrow> interrupt + interrupt_response list" where
  "fast_scan tbl sid [] responses = Inr responses"
| "fast_scan tbl sid (i # is) responses =
     (case get_approval_response tbl sid (int_id i) of
        None \<Rightarrow> Inl i
      | Some r \<Rightarrow>
          if r = [] then Inl i
          else fast_scan tbl sid is
                 (responses @ [\<lparr>interruptId = int_id i, response = r\<rparr>]))"

definition resume_agent_task :: "world \<Rightarrow> int \<Rightarrow> string \<Rightarrow> reply \<times> job option \<times> world" where
  "resume_agent_task w task_id session_id =
     (case session_states w session_id of
        None \<Rightarrow>
          (let saved = get_agent_state (table w) session_id in
           if \<not> state_truthy saved
           then (Error (''No pending session found: '' @ session_id), None, w)
           else
             let ints = (case st_interrupts (the saved) of None \<Rightarrow> [] | Some l \<Rightarrow> l) in
             (case cold_scan (table w) session_id ints [] [] of
                (pre, pending) \<Rightarrow>
                  if pending \<noteq> []
                  then (ErrorPending ''Not all approvals have been responded to'' pending,
                        None, w)
                  else if \<not> truthy (st_prompt (the saved))
                  then (Error ''Original prompt not found in saved state'', None, w)
                  else (ResumingPreApproved session_id task_id (map fst pre),
                        Some (ColdResumeWork task_id pre (the (st_prompt (the saved)))),
                        w\<lparr>app := add_async_task (app w) task_id ''agent_resume'' session_id\<rparr>)))
      | Some state \<Rightarrow>
          if ss_status state \<noteq> ''waiting_approval''
          then (Error (''Session is not waiting for approval: '' @ ss_status state), None, w)
          else
            (case (ss_agent state, ss_result state) of
               (Some ag, Some prev_result) \<Rightarrow>
                 (case fast_scan (table w) session_id (interrupts prev_result) [] of
                    Inl i \<Rightarrow>
                      (ErrorInterrupt (''Approval not found for interrupt: '' @ int_id i) i,
                       None, w)
                  | Inr responses \<Rightarrow>
                      (Resuming session_id task_id,
                       Some (FastResumeWork task_id ag responses),
                       w\<lparr>app := add_async_task (app w) task_id ''agent_resume'' session_id\<rparr>))
             | _ \<Rightarrow> (Error ''Invalid session state'', None, w)))"

text \<open>\<^verbatim>\<open>resume_work\<close> of the cold path (lines 476-515).\<close>

definition resume_work_cold ::
  "engine \<Rightarrow> clock \<Rightarrow> string \<Rightarrow> (string \<times> string) list \<Rightarrow> string \<Rightarrow> int \<Rightarrow> world
     \<Rightarrow> world" where
  "resume_work_cold eng clk session_id pre original_prompt task_id w =
     (let w1 =
        (case eng (new_agent session_id pre) (Prompt original_prompt) of
           Returned res ag \<Rightarrow>
             if stop_reason res = ''interrupt''
             then w\<lparr>table :=
                      save_agent_state (save_interrupts (table w) clk session_id (interrupts res))
                        clk session_id
                        \<lparr>st_prompt = Some original_prompt,
                         st_interrupts = Some (interrupts res)\<rparr>,
                    session_states := (session_states w)(session_id \<mapsto> waiting_state ag res)\<rparr>
             else w\<lparr>table :=
                      save_agent_result (table w) clk session_id
                        (ResultMessage (message res) (stop_reason res)),
                    session_states :=
                      (session_states w)(session_id \<mapsto> completed_state (message res))\<rparr>
         | Raised e \<Rightarrow>
             w\<lparr>table := save_agent_result (table w) clk session_id (ResultError e)\<rparr>)
      in w1\<lparr>app := complete_async_task (app w1) task_id\<rparr>)"

text \<open>\<^verbatim>\<open>resume_work\<close> of the fast path (lines 559-576).\<close>

definition resume_work_fast ::
  "engine \<Rightarrow> clock \<Rightarrow> string \<Rightarrow> agent \<Rightarrow> interrupt_response list \<Rightarrow> int \<Rightarrow> world
     \<Rightarrow> world" where
  "resume_work_fast eng clk session_id ag0 responses task_id w =
     (let w1 =
        (case eng ag0 (Responses responses) of
           Returned res ag \<Rightarrow>
             if stop_reason res = ''interrupt''
             then w\<lparr>table := save_interrupts (table w) clk session_id (interrupts res),
                    session_states := (session_states w)(session_id \<mapsto> waiting_state ag res)\<rparr>
             else w\<lparr>table :=
                      save_agent_result (table w) clk session_id
                        (ResultMessage (message res) (stop_reason res)),
                    session_states :=
                      (session_states w)(session_id \<mapsto> completed_state (message res))\<rparr>
         | Raised e \<Rightarrow>
             w\<lparr>table := save_agent_result (table w) clk session_id (ResultError e)\<rparr>)
      in w1\<lparr>app := complete_async_task (app w1) task_id\<rparr>)"



section \<open>The memory-only orchestrator (\<^verbatim>\<open>agent_without_dynamo.py\<close>)\<close>

text \<open>
  One dictionary of the list \<^verbatim>\<open>pending_approvals[session_id]\<close>. The keys written on
  approval or rejection are absent until then.
\<close>

record approval =
  ap_session_id :: string
  ap_interrupt_id :: string
  ap_name :: string
  ap_reason :: reason
  ap_status :: string
  ap_created_at :: string
  ap_response :: "string option"
  ap_approver :: "string option"
  ap_rejection_reason :: "string option"
  ap_updated_at :: "string option"

record world_mem =
  session_states_mem :: "string \<rightharpoonup> session_state"
  pending_approvals :: "string \<rightharpoonup> approval list"
  app_mem :: host

definition pending_of :: "world_mem \<Rightarrow> string \<Rightarrow> approval list" where
  "pending_of w sid = (case pending_approvals w sid of None \<Rightarrow> [] | Some l \<Rightarrow> l)"

definition new_approval :: "clock \<Rightarrow> string \<Rightarrow> interrupt \<Rightarrow> approval" where
  "new_approval clk sid i =
     \<lparr>ap_session_id = sid, ap_interrupt_id = int_id i, ap_name = int_name i,
      ap_reason = int_reason i, ap_status = ''pending'', ap_created_at = iso clk,
      ap_response = None, ap_approver = None, ap_rejection_reason = None,
      ap_updated_at = None\<rparr>"

text \<open>\<^verbatim>\<open>pending_approvals.setdefault(session_id, []).append(..)\<close> for each interrupt.\<close>

definition append_pending ::
  "(string \<rightharpoonup> approval list) \<Rightarrow> clock \<Rightarrow> string \<Rightarrow> interrupt list
     \<Rightarrow> (string \<rightharpoonup> approval list)" where
  "append_pending pa clk sid ints =
     fold (\<lambda>i m. m(sid \<mapsto> (case m sid of None \<Rightarrow> [] | Some l \<Rightarrow> l) @ [new_approval clk sid i]))
       ints pa"

definition waiting_state_mem ::
  "agent \<Rightarrow> agent_result \<Rightarrow> string option \<Rightarrow> int \<Rightarrow> session_state" where
  "waiting_state_mem ag res prompt task_id =
     \<lparr>ss_agent = Some ag, ss_result = Some res, ss_status = ''waiting_approval'',
      ss_message = None, ss_error = None, ss_prompt = prompt, ss_task_id = Some task_id\<rparr>"

definition start_agent_task_mem ::
  "world_mem \<Rightarrow> int \<Rightarrow> payload \<Rightarrow> string \<Rightarrow> reply \<times> job \<times> world_mem" where
  "start_agent_task_mem w task_id pl session_id =
     (let prompt = payload_get pl ''prompt'' ''Hello!''
      in (Started session_id task_id, BackgroundWork task_id prompt,
          w\<lparr>app_mem := add_async_task (app_mem w) task_id ''agent_processing'' session_id\<rparr>))"

text \<open>
  \<^verbatim>\<open>background_work\<close> of the memory-only \<^verbatim>\<open>start_agent_task\<close> (lines 170-237). The
  first component of the intermediate pair is the flag \<^verbatim>\<open>interrupt_occurred\<close>; the
  \<^verbatim>\<open>finally\<close> clause runs on every exit of the \<^verbatim>\<open>try\<close> statement, the early
  \<^verbatim>\<open>return\<close> included, and tests the flag.
\<close>

definition background_work_mem ::
  "engine \<Rightarrow> clock \<Rightarrow> string \<Rightarrow> string \<Rightarrow> int \<Rightarrow> world_mem \<Rightarrow> world_mem" where
  "background_work_mem eng clk session_id prompt task_id w =
     (case
        (case eng (new_agent session_id []) (Prompt prompt) of
           Returned res ag \<Rightarrow>
             if stop_reason res = ''interrupt''
             then (True,
                   w\<lparr>pending_approvals :=
                        append_pending (pending_approvals w) clk session_id (interrupts res),
                      session_states_mem :=
                        (session_states_mem w)
                          (session_id \<mapsto> waiting_state_mem ag res (Some prompt) task_id)\<rparr>)
             else (False,
                   w\<lparr>session_states_mem :=
                        (session_states_mem w)(session_id \<mapsto> completed_state (message res)),
                      pending_approvals := (pending_approvals w)(session_id := None)\<rparr>)
         | Raised e \<Rightarrow>
             (False,
              w\<lparr>session_states_mem := (session_states_mem w)(session_id \<mapsto> error_state e)\<rparr>))
      of (interrupt_occurred, w1) \<Rightarrow>
        if \<not> interrupt_occurred
        then w1\<lparr>app_mem := complete_async_task (app_mem w1) task_id\<rparr>
        else w1)"

text \<open>
  The loops of \<^verbatim>\<open>approve_request\<close> (lines 281-289) and \<^verbatim>\<open>reject_request\<close>
  (lines 315-324): the first dictionary with the interrupt id is updated in place, and the
  flag \<^verbatim>\<open>found\<close> is returned with the list.
\<close>

fun approve_loop ::
  "clock \<Rightarrow> string \<Rightarrow> string \<Rightarrow> string \<Rightarrow> approval list \<Rightarrow> approval list \<times> bool" where
  "approve_loop clk interrupt_id rsp approver [] = ([], False)"
| "approve_loop clk interrupt_id rsp approver (a # as) =
     (if ap_interrupt_id a = interrupt_id
      then (a\<lparr>ap_status := ''approved'', ap_response := Some rsp,
               ap_approver := Some approver, ap_updated_at := Some (iso clk)\<rparr> # as, True)
      else (case approve_loop clk interrupt_id rsp approver as of
              (as', found) \<Rightarrow> (a # as', found)))"

fun reject_loop ::
  "clock \<Rightarrow> string \<Rightarrow> string \<Rightarrow> string \<Rightarrow> approval list \<Rightarrow> approval list \<times> bool" where
  "reject_loop clk interrupt_id rsn approver [] = ([], False)"
| "reject_loop clk interrupt_id rsn approver (a # as) =
     (if ap_interrupt_id a = interrupt_id
      then (a\<lparr>ap_status := ''rejected'', ap_response := Some ''n'',
               ap_approver := Some approver, ap_rejection_reason := Some rsn,
               ap_updated_at := Some (iso clk)\<rparr> # as, True)
      else (case reject_loop clk interrupt_id rsn approver as of
              (as', found) \<Rightarrow> (a # as', found)))"

definition approve_request_mem ::
  "world_mem \<Rightarrow> clock \<Rightarrow> string \<Rightarrow> payload \<Rightarrow> reply \<times> world_mem" where
  "approve_request_mem w clk session_id pl =
     (let rsp = payload_get pl ''response'' ''y'';
          approver = payload_get pl ''approver'' ''cli''
      in if \<not> truthy (pl ''interrupt_id'') then (Error ''interrupt_id is required'', w)
         else
           let interrupt_id = the (pl ''interrupt_id'') in
           (case approve_loop clk interrupt_id rsp approver (pending_of w session_id) of
              (as', found) \<Rightarrow>
                if \<not> found then (Error (''Approval not found: '' @ interrupt_id), w)
                else (Approved session_id interrupt_id rsp,
                      w\<lparr>pending_approvals := (pending_approvals w)(session_id \<mapsto> as')\<rparr>)))"

definition reject_request_mem ::
  "world_mem \<Rightarrow> clock \<Rightarrow> string \<Rightarrow> payload \<Rightarrow> reply \<times> world_mem" where
  "reject_request_mem w clk session_id pl =
     (let rsn = payload_get pl ''reason'' ''User rejected'';
          approver = payload_get pl ''approver'' ''cli''
      in if \<not> truthy (pl ''interrupt_id'') then (Error ''interrupt_id is required'', w)
         else
           let interrupt_id = the (pl ''interrupt_id'') in
           (case reject_loop clk interrupt_id rsn approver (pending_of w session_id) of
              (as', found) \<Rightarrow>
                if \<not> found then (Error (''Approval not found: '' @ interrupt_id), w)
                else (Rejected session_id interrupt_id rsn,
                      w\<lparr>pending_approvals := (pending_approvals w)(session_id \<mapsto> as')\<rparr>)))"




text \<open>\<^verbatim>\<open>resume_work\<close> of the memory-only variant (lines 387-440).\<close>

definition resume_work_mem ::
  "engine \<Rightarrow> clock \<Rightarrow> string \<Rightarrow> agent \<Rightarrow> interrupt_response list \<Rightarrow> string option \<Rightarrow> int
     \<Rightarrow> world_mem \<Rightarrow> world_mem" where
  "resume_work_mem eng clk session_id ag0 responses prompt task_id w =
     (case
        (case eng ag0 (Responses responses) of
           Returned res ag \<Rightarrow>
             if stop_reason res = ''interrupt''
             then (True,
                   w\<lparr>pending_approvals :=
                        append_pending (pending_approvals w) clk session_id (interrupts res),
                      session_states_mem :=
                        (session_states_mem w)
                          (session_id \<mapsto> waiting_state_mem ag res prompt task_id)\<rparr>)
             else (False,
                   w\<lparr>session_states_mem :=
                        (session_states_mem w)(session_id \<mapsto> completed_state (message res)),
                      pending_approvals := (pending_approvals w)(session_id := None)\<rparr>)
         | Raised e \<Rightarrow>
             (False,
              w\<lparr>session_states_mem := (session_states_mem w)(session_id \<mapsto> error_state e)\<rparr>))
      of (interrupt_occurred, w1) \<Rightarrow>
        if \<not> interrupt_occurred
        then w1\<lparr>app_mem := complete_async_task (app_mem w1) task_id\<rparr>
        else w1)"


section \<open>Notions used to state the properties\<close>

text \<open>A run suspends when the engine returns with the stop reason \<^verbatim>\<open>"interrupt"\<close>.\<close>

fun suspended :: "run_outcome \<Rightarrow> bool" where
  "suspended (Returned res ag) = (stop_reason res = ''interrupt'')"
| "suspended (Raised e) = False"


definition terminal_in_list :: "approval list \<Rightarrow> string \<Rightarrow> bool" where
  "terminal_in_list aps iid =
     list_ex (\<lambda>a. ap_interrupt_id a = iid
                 \<and> (ap_status a = ''approved'' \<or> ap_status a = ''rejected'')) aps"

text \<open>The interrupts of a run that suspended.\<close>

fun outcome_interrupts :: "run_outcome \<Rightarrow> interrupt list" where
  "outcome_interrupts (Returned res ag) = interrupts res"
| "outcome_interrupts (Raised e) = []"

text \<open>
  An interrupt is answered for a resume when \<^verbatim>\<open>get_approval_response\<close> yields a
  non-empty response for it: its record is terminal and holds one.
\<close>

definition answered :: "table \<Rightarrow> string \<Rightarrow> interrupt \<Rightarrow> bool" where
  "answered tbl sid i = truthy (get_approval_response tbl sid (int_id i))"


text \<open>
  A restart of the process with the durable store: the registry \<^verbatim>\<open>session_states\<close> is
  module state and starts empty again, the table is kept.
\<close>

definition restart :: "world \<Rightarrow> world" where
  "restart w = w\<lparr>session_states := Map.empty\<rparr>"

section \<open>Concrete inputs\<close>

definition clock0 :: clock where
  "clock0 = \<lparr>iso = ''2025-01-01T00:00:00'', epoch = 1735689600\<rparr>"

definition host0 :: host where
  "host0 = \<lparr>added = [], completed = []\<rparr>"

definition world0 :: world where
  "world0 = \<lparr>table = Map.empty, session_states = Map.empty, app = host0\<rparr>"

definition world_mem0 :: world_mem where
  "world_mem0 = \<lparr>session_states_mem = Map.empty, pending_approvals = Map.empty, app_mem = host0\<rparr>"

definition interrupt1 :: interrupt where
  "interrupt1 =
     \<lparr>int_id = ''i1'', int_name = ''hitl-demo-delete_files-approval'',
      int_reason = RDict [(''tool'', ''delete_files''), (''input'', ''/tmp/x''),
                          (''message'', ''approval needed'')]\<rparr>"

definition result_interrupted :: agent_result where
  "result_interrupted =
     \<lparr>stop_reason = ''interrupt'', interrupts = [interrupt1], message = ''''\<rparr>"

definition result_done :: agent_result where
  "result_done = \<lparr>stop_reason = ''end_turn'', interrupts = [], message = ''done''\<rparr>"

text \<open>Three engines: one that suspends, one that completes, one that raises.\<close>

definition engine_suspends :: engine where
  "engine_suspends ag inp = Returned result_interrupted ag"

definition engine_completes :: engine where
  "engine_completes ag inp = Returned result_done ag"

definition engine_raises :: engine where
  "engine_raises ag inp = Raised ''boom''"

text \<open>The worlds after a first run of session \<^verbatim>\<open>s1\<close> that suspends on \<^verbatim>\<open>delete_files\<close>.\<close>

definition world1 :: world where
  "world1 = background_work engine_suspends clock0 ''s1'' ''delete /tmp/x'' 7 world0"

definition world_mem1 :: world_mem where
  "world_mem1 = background_work_mem engine_suspends clock0 ''s1'' ''delete /tmp/x'' 7 world_mem0"

definition approve_i1 :: payload where
  "approve_i1 = [''interrupt_id'' \<mapsto> ''i1'', ''response'' \<mapsto> ''y'', ''approver'' \<mapsto> ''alice'']"

definition reject_i1 :: payload where
  "reject_i1 = [''interrupt_id'' \<mapsto> ''i1'', ''reason'' \<mapsto> ''too risky'', ''approver'' \<mapsto> ''bob'']"

text \<open>Session \<^verbatim>\<open>s1\<close> after its interrupt was approved and the process restarted.\<close>

definition world2 :: world where
  "world2 = restart (snd (approve_request world1 clock0 ''s1'' approve_i1))"


section \<open>Facts about the gate\<close>

lemma lower_eq_single:
  "lower s = [c] \<longleftrightarrow> (\<exists>d. s = [d] \<and> lower_char d = c)"
  by (cases s) (auto simp: lower_def)

lemma lower_char_t: "lower_char d = CHR ''t'' \<longleftrightarrow> d = CHR ''t'' \<or> d = CHR ''T''"
  by (simp add: lower_char_def)

lemma lower_char_y: "lower_char d = CHR ''y'' \<longleftrightarrow> d = CHR ''y'' \<or> d = CHR ''Y''"
  by (simp add: lower_char_def)

lemma lower_t: "lower s = ''t'' \<longleftrightarrow> s = ''t'' \<or> s = ''T''"
  by (auto simp: lower_eq_single lower_char_t)

lemma lower_y: "lower s = ''y'' \<longleftrightarrow> s = ''y'' \<or> s = ''Y''"
  by (auto simp: lower_eq_single lower_char_y)

lemma process_answer_trust:
  "lower a = ''t'' \<Longrightarrow>
   process_answer apn t a st =
     (Proceed, st(trust_key apn t \<mapsto> ''trusted''), [StateSet (trust_key apn t) ''trusted''])"
  by (simp add: process_answer_def)

lemma process_answer_deny:
  "lower a \<noteq> ''t'' \<Longrightarrow> lower a \<noteq> ''y'' \<Longrightarrow>
   process_answer apn t a st = (CancelTool (denied_message t), st, [])"
  by (simp add: process_answer_def)

lemma process_answer_once:
  "lower a = ''y'' \<Longrightarrow> process_answer apn t a st = (Proceed, st, [])"
  by (simp add: process_answer_def)

text \<open>
  On a risky operation that is not trusted yet, the gate acts on the pre-approved answer
  when there is one and on the live answer otherwise.
\<close>

lemma approve_answered:
  assumes "tu_name tu \<in> set DANGEROUS_TOOLS"
    and "st (trust_key (app_name h) (tu_name tu)) \<noteq> Some ''trusted''"
    and "map_of (pre_approved_tools h) (tu_name tu) = Some a
         \<or> (map_of (pre_approved_tools h) (tu_name tu) = None \<and> live = Some a)"
  shows "fst (approve h tu st live) = fst (process_answer (app_name h) (tu_name tu) a st)"
    and "fst (snd (approve h tu st live))
           = fst (snd (process_answer (app_name h) (tu_name tu) a st))"
  using assms by (auto simp: approve_def Let_def split: prod.splits)

lemma approve_mem_answered:
  assumes "tu_name tu \<in> set DANGEROUS_TOOLS"
    and "st (trust_key apn (tu_name tu)) \<noteq> Some ''trusted''"
  shows "fst (approve_mem apn tu st (Some a)) = fst (process_answer apn (tu_name tu) a st)"
    and "fst (snd (approve_mem apn tu st (Some a)))
           = fst (snd (process_answer apn (tu_name tu) a st))"
  using assms by (auto simp: approve_mem_def Let_def split: prod.splits)

lemma gate_on_trust:
  assumes "tu_name tu \<in> set DANGEROUS_TOOLS"
    and "st (trust_key (app_name h) (tu_name tu)) \<noteq> Some ''trusted''"
    and "map_of (pre_approved_tools h) (tu_name tu) = Some a
         \<or> (map_of (pre_approved_tools h) (tu_name tu) = None \<and> live = Some a)"
    and "lower a = ''t''"
  shows "fst (approve h tu st live) = Proceed
       \<and> fst (snd (approve h tu st live))
           = st(trust_key (app_name h) (tu_name tu) \<mapsto> ''trusted'')
       \<and> fst (approve_mem (app_name h) tu st (Some a)) = Proceed
       \<and> fst (snd (approve_mem (app_name h) tu st (Some a)))
           = st(trust_key (app_name h) (tu_name tu) \<mapsto> ''trusted'')"
  using assms approve_answered [of tu st h a live] approve_mem_answered [of tu st "app_name h" a]
  by (simp add: process_answer_trust)

lemma gate_on_deny:
  assumes "tu_name tu \<in> set DANGEROUS_TOOLS"
    and "st (trust_key (app_name h) (tu_name tu)) \<noteq> Some ''trusted''"
    and "map_of (pre_approved_tools h) (tu_name tu) = Some a
         \<or> (map_of (pre_approved_tools h) (tu_name tu) = None \<and> live = Some a)"
    and "lower a \<noteq> ''t''" and "lower a \<noteq> ''y''"
  shows "fst (approve h tu st live) = CancelTool (denied_message (tu_name tu))
       \<and> fst (snd (approve h tu st live)) = st
       \<and> fst (approve_mem (app_name h) tu st (Some a))
           = CancelTool (denied_message (tu_name tu))
       \<and> fst (snd (approve_mem (app_name h) tu st (Some a))) = st"
  using assms approve_answered [of tu st h a live] approve_mem_answered [of tu st "app_name h" a]
  by (simp add: process_answer_deny)

lemma gate_on_once:
  assumes "tu_name tu \<in> set DANGEROUS_TOOLS"
    and "st (trust_key (app_name h) (tu_name tu)) \<noteq> Some ''trusted''"
    and "map_of (pre_approved_tools h) (tu_name tu) = Some a
         \<or> (map_of (pre_approved_tools h) (tu_name tu) = None \<and> live = Some a)"
    and "lower a = ''y''"
  shows "fst (approve h tu st live) = Proceed
       \<and> fst (snd (approve h tu st live)) = st
       \<and> fst (approve_mem (app_name h) tu st (Some a)) = Proceed
       \<and> fst (snd (approve_mem (app_name h) tu st (Some a))) = st"
  using assms approve_answered [of tu st h a live] approve_mem_answered [of tu st "app_name h" a]
  by (simp add: process_answer_once)

text \<open>
  Claim C3, as the code has it. The claim lets every answer other than the literals
  \<^verbatim>\<open>"y"\<close> and \<^verbatim>\<open>"t"\<close> deny; the gate lower-cases the answer first, so \<^verbatim>\<open>"T"\<close> trusts
  and \<^verbatim>\<open>"Y"\<close> allows. With the answer compared after lower-casing the claim holds: on a
  risky operation that is not trusted yet, an answer lowering to \<^verbatim>\<open>"t"\<close> marks the pair
  of application scope and operation trusted and lets the operation run, an answer
  lowering to neither \<^verbatim>\<open>"y"\<close> nor \<^verbatim>\<open>"t"\<close> cancels the tool with a message naming the
  operation and leaves the trust cache as it was, and an answer lowering to \<^verbatim>\<open>"y"\<close> lets
  the operation run and leaves the trust cache as it was. The answer is the pre-approved
  one when the dictionary holds the operation and the live one otherwise, in both
  variants of the gate.
\<close>

theorem gate_answer_semantics:
  assumes "tu_name tu \<in> set DANGEROUS_TOOLS"
    and "st (trust_key (app_name h) (tu_name tu)) \<noteq> Some ''trusted''"
    and "map_of (pre_approved_tools h) (tu_name tu) = Some a
         \<or> (map_of (pre_approved_tools h) (tu_name tu) = None \<and> live = Some a)"
  shows "(lower a = ''t'' \<longrightarrow>
            fst (approve h tu st live) = Proceed
          \<and> fst (snd (approve h tu st live))
              = st(trust_key (app_name h) (tu_name tu) \<mapsto> ''trusted'')
          \<and> fst (approve_mem (app_name h) tu st (Some a)) = Proceed
          \<and> fst (snd (approve_mem (app_name h) tu st (Some a)))
              = st(trust_key (app_name h) (tu_name tu) \<mapsto> ''trusted''))
       \<and> (lower a \<noteq> ''t'' \<and> lower a \<noteq> ''y'' \<longrightarrow>
            fst (approve h tu st live) = CancelTool (denied_message (tu_name tu))
          \<and> fst (snd (approve h tu st live)) = st
          \<and> fst (approve_mem (app_name h) tu st (Some a))
              = CancelTool (denied_message (tu_name tu))
          \<and> fst (snd (approve_mem (app_name h) tu st (Some a))) = st)
       \<and> (lower a = ''y'' \<longrightarrow>
            fst (approve h tu st live) = Proceed
          \<and> fst (snd (approve h tu st live)) = st
          \<and> fst (approve_mem (app_name h) tu st (Some a)) = Proceed
          \<and> fst (snd (approve_mem (app_name h) tu st (Some a))) = st)"
  using assms gate_on_trust [of tu st h a live] gate_on_deny [of tu st h a live]
    gate_on_once [of tu st h a live]
  by blast

theorem gate_answer_semantics_witness:
  "fst (approve \<lparr>app_name = ''hitl-demo'', hook_session_id = ''s1'', pre_approved_tools = []\<rparr>
          \<lparr>tu_name = ''delete_files'', tu_input = ''/tmp/x''\<rparr> Map.empty (Some ''no''))
     = CancelTool (denied_message ''delete_files'')
   \<and> fst (snd (approve
          \<lparr>app_name = ''hitl-demo'', hook_session_id = ''s1'', pre_approved_tools = []\<rparr>
          \<lparr>tu_name = ''delete_files'', tu_input = ''/tmp/x''\<rparr> Map.empty (Some ''no'')))
     = Map.empty
   \<and> fst (approve
          \<lparr>app_name = ''hitl-demo'', hook_session_id = ''s1'',
            pre_approved_tools = [(''delete_files'', ''t'')]\<rparr>
          \<lparr>tu_name = ''delete_files'', tu_input = ''/tmp/x''\<rparr> Map.empty None)
     = Proceed
   \<and> fst (snd (approve
          \<lparr>app_name = ''hitl-demo'', hook_session_id = ''s1'',
            pre_approved_tools = [(''delete_files'', ''t'')]\<rparr>
          \<lparr>tu_name = ''delete_files'', tu_input = ''/tmp/x''\<rparr> Map.empty None))
       ''hitl-demo-delete_files-trust'' = Some ''trusted''
   \<and> fst (approve_mem ''hitl-demo''
          \<lparr>tu_name = ''delete_files'', tu_input = ''/tmp/x''\<rparr> Map.empty (Some ''y''))
     = Proceed
   \<and> fst (snd (approve_mem ''hitl-demo''
          \<lparr>tu_name = ''delete_files'', tu_input = ''/tmp/x''\<rparr> Map.empty (Some ''y'')))
     = Map.empty"
  using
    gate_answer_semantics [of "\<lparr>tu_name = ''delete_files'', tu_input = ''/tmp/x''\<rparr>" Map.empty
      "\<lparr>app_name = ''hitl-demo'', hook_session_id = ''s1'', pre_approved_tools = []\<rparr>"
      "''no''" "Some ''no''"]
    gate_answer_semantics [of "\<lparr>tu_name = ''delete_files'', tu_input = ''/tmp/x''\<rparr>" Map.empty
      "\<lparr>app_name = ''hitl-demo'', hook_session_id = ''s1'',
        pre_approved_tools = [(''delete_files'', ''t'')]\<rparr>"
      "''t''" None]
    gate_answer_semantics [of "\<lparr>tu_name = ''delete_files'', tu_input = ''/tmp/x''\<rparr>" Map.empty
      "\<lparr>app_name = ''hitl-demo'', hook_session_id = ''s1'', pre_approved_tools = []\<rparr>"
      "''y''" "Some ''y''"]
  by (simp add: DANGEROUS_TOOLS_def lower_def lower_char_def trust_key_def)

text \<open>
  The claim C3 as it is worded fails at the answer \<^verbatim>\<open>"T"\<close>, which is neither \<^verbatim>\<open>"y"\<close> nor
  \<^verbatim>\<open>"t"\<close>: the gate does not cancel \<^verbatim>\<open>delete_files\<close>, it lets it run and marks it
  trusted.
\<close>

theorem gate_answer_counterexample:
  "''T'' \<noteq> ''y'' \<and> ''T'' \<noteq> ''t''
   \<and> tu_name \<lparr>tu_name = ''delete_files'', tu_input = ''/tmp/x''\<rparr> \<in> set DANGEROUS_TOOLS
   \<and> fst (approve \<lparr>app_name = ''hitl-demo'', hook_session_id = ''s1'', pre_approved_tools = []\<rparr>
            \<lparr>tu_name = ''delete_files'', tu_input = ''/tmp/x''\<rparr> Map.empty (Some ''T''))
       = Proceed
   \<and> fst (snd (approve
            \<lparr>app_name = ''hitl-demo'', hook_session_id = ''s1'', pre_approved_tools = []\<rparr>
            \<lparr>tu_name = ''delete_files'', tu_input = ''/tmp/x''\<rparr> Map.empty (Some ''T'')))
        ''hitl-demo-delete_files-trust'' = Some ''trusted''"
  by (simp add: approve_def Let_def DANGEROUS_TOOLS_def trust_key_def process_answer_def
        lower_def lower_char_def)

text \<open>
  Claim C7: for an operation name outside the configured risky set, both variants of the
  gate return at once. The operation proceeds, the engine state is returned unchanged, and
  the list of effects is empty: no read or write of the trust cache, no lookup in the
  pre-approved dictionary and no interrupt, whatever the state, the dictionary and the
  pending answer are.
\<close>

theorem gate_skips_safe_operations:
  assumes "tu_name tu \<notin> set DANGEROUS_TOOLS"
  shows "approve h tu st live = (Proceed, st, [])
       \<and> approve_mem a tu st live = (Proceed, st, [])"
  using assms by (simp add: approve_def approve_mem_def)

theorem gate_skips_safe_operations_witness:
  "approve \<lparr>app_name = ''hitl-demo'', hook_session_id = ''s1'',
            pre_approved_tools = [(''list_files'', ''n'')]\<rparr>
     \<lparr>tu_name = ''list_files'', tu_input = ''.''\<rparr> Map.empty None = (Proceed, Map.empty, [])
   \<and> approve_mem ''hitl-demo'' \<lparr>tu_name = ''list_files'', tu_input = ''.''\<rparr> Map.empty None
       = (Proceed, Map.empty, [])"
  using gate_skips_safe_operations [of "\<lparr>tu_name = ''list_files'', tu_input = ''.''\<rparr>"
     "\<lparr>app_name = ''hitl-demo'', hook_session_id = ''s1'',
       pre_approved_tools = [(''list_files'', ''n'')]\<rparr>"
     Map.empty None "''hitl-demo''"]
  by (simp add: DANGEROUS_TOOLS_def)

text \<open>
  Claim C9: the gate compares the answer after lower-casing it. \<^verbatim>\<open>"T"\<close> lowers to
  \<^verbatim>\<open>"t"\<close> and \<^verbatim>\<open>"Y"\<close> to \<^verbatim>\<open>"y"\<close>; on a risky operation that is not trusted yet, every
  answer lowering to \<^verbatim>\<open>"t"\<close> lets the operation run and leaves it marked trusted, and
  every answer lowering to \<^verbatim>\<open>"y"\<close> lets it run once, the trust cache unchanged; for the
  pre-approved answer and the live one, in both variants.
\<close>

theorem gate_case_insensitive:
  assumes "tu_name tu \<in> set DANGEROUS_TOOLS"
    and "st (trust_key (app_name h) (tu_name tu)) \<noteq> Some ''trusted''"
    and "map_of (pre_approved_tools h) (tu_name tu) = Some a
         \<or> (map_of (pre_approved_tools h) (tu_name tu) = None \<and> live = Some a)"
  shows "lower ''T'' = ''t'' \<and> lower ''Y'' = ''y''
       \<and> (lower a = ''t'' \<longrightarrow>
            fst (approve h tu st live) = Proceed
          \<and> fst (snd (approve h tu st live)) (trust_key (app_name h) (tu_name tu))
              = Some ''trusted''
          \<and> fst (approve_mem (app_name h) tu st (Some a)) = Proceed
          \<and> fst (snd (approve_mem (app_name h) tu st (Some a)))
              (trust_key (app_name h) (tu_name tu)) = Some ''trusted'')
       \<and> (lower a = ''y'' \<longrightarrow>
            fst (approve h tu st live) = Proceed
          \<and> fst (snd (approve h tu st live)) = st
          \<and> fst (approve_mem (app_name h) tu st (Some a)) = Proceed
          \<and> fst (snd (approve_mem (app_name h) tu st (Some a))) = st)"
proof (intro conjI impI)
  show "lower ''T'' = ''t''" by (simp add: lower_t)
  show "lower ''Y'' = ''y''" by (simp add: lower_y)
next
  assume t: "lower a = ''t''"
  have r: "fst (approve h tu st live) = Proceed
       \<and> fst (snd (approve h tu st live))
           = st(trust_key (app_name h) (tu_name tu) \<mapsto> ''trusted'')
       \<and> fst (approve_mem (app_name h) tu st (Some a)) = Proceed
       \<and> fst (snd (approve_mem (app_name h) tu st (Some a)))
           = st(trust_key (app_name h) (tu_name tu) \<mapsto> ''trusted'')"
    using assms t by (rule gate_on_trust)
  show "fst (approve h tu st live) = Proceed" using r by simp
  show "fst (snd (approve h tu st live)) (trust_key (app_name h) (tu_name tu)) = Some ''trusted''"
    using r by simp
  show "fst (approve_mem (app_name h) tu st (Some a)) = Proceed" using r by simp
  show "fst (snd (approve_mem (app_name h) tu st (Some a)))
          (trust_key (app_name h) (tu_name tu)) = Some ''trusted''"
    using r by simp
next
  assume y: "lower a = ''y''"
  have r: "fst (approve h tu st live) = Proceed
       \<and> fst (snd (approve h tu st live)) = st
       \<and> fst (approve_mem (app_name h) tu st (Some a)) = Proceed
       \<and> fst (snd (approve_mem (app_name h) tu st (Some a))) = st"
    using assms y by (rule gate_on_once)
  show "fst (approve h tu st live) = Proceed" using r by simp
  show "fst (snd (approve h tu st live)) = st" using r by simp
  show "fst (approve_mem (app_name h) tu st (Some a)) = Proceed" using r by simp
  show "fst (snd (approve_mem (app_name h) tu st (Some a))) = st" using r by simp
qed

theorem gate_case_insensitive_witness:
  "fst (approve \<lparr>app_name = ''hitl-demo'', hook_session_id = ''s1'', pre_approved_tools = []\<rparr>
          \<lparr>tu_name = ''execute_command'', tu_input = ''ls''\<rparr> Map.empty (Some ''T'')) = Proceed
   \<and> fst (snd (approve
          \<lparr>app_name = ''hitl-demo'', hook_session_id = ''s1'', pre_approved_tools = []\<rparr>
          \<lparr>tu_name = ''execute_command'', tu_input = ''ls''\<rparr> Map.empty (Some ''T'')))
       ''hitl-demo-execute_command-trust'' = Some ''trusted''
   \<and> fst (approve
          \<lparr>app_name = ''hitl-demo'', hook_session_id = ''s1'',
            pre_approved_tools = [(''execute_command'', ''Y'')]\<rparr>
          \<lparr>tu_name = ''execute_command'', tu_input = ''ls''\<rparr> Map.empty None) = Proceed
   \<and> fst (snd (approve
          \<lparr>app_name = ''hitl-demo'', hook_session_id = ''s1'',
            pre_approved_tools = [(''execute_command'', ''Y'')]\<rparr>
          \<lparr>tu_name = ''execute_command'', tu_input = ''ls''\<rparr> Map.empty None)) = Map.empty"
  using
    gate_case_insensitive [of "\<lparr>tu_name = ''execute_command'', tu_input = ''ls''\<rparr>" Map.empty
      "\<lparr>app_name = ''hitl-demo'', hook_session_id = ''s1'', pre_approved_tools = []\<rparr>"
      "''T''" "Some ''T''"]
    gate_case_insensitive [of "\<lparr>tu_name = ''execute_command'', tu_input = ''ls''\<rparr>" Map.empty
      "\<lparr>app_name = ''hitl-demo'', hook_session_id = ''s1'',
        pre_approved_tools = [(''execute_command'', ''Y'')]\<rparr>"
      "''Y''" None]
  by (simp add: DANGEROUS_TOOLS_def lower_def lower_char_def trust_key_def)

section \<open>The host liveness signal, by mode\<close>

lemma completed_complete_async_task:
  "completed (complete_async_task h tid) = completed h @ [tid]"
  by (simp add: complete_async_task_def)

text \<open>
  Claim C5: in the memory-only variant the log of \<^verbatim>\<open>complete_async_task\<close> calls is left
  as it was when the run, initial or resumed, ends in a suspension, and gains exactly the
  run's task identifier when the run ends otherwise (the engine returned another stop
  reason, or raised). With the durable store the three background runs (initial, cold
  resumption, fast resumption) always append the task identifier, a suspension included.
\<close>

theorem host_signal_by_mode:
  "completed (app_mem (background_work_mem eng clk sid prompt tid wm))
     = (if suspended (eng (new_agent sid []) (Prompt prompt))
        then completed (app_mem wm) else completed (app_mem wm) @ [tid])
   \<and> completed (app_mem (resume_work_mem eng clk sid ag rs p tid wm))
     = (if suspended (eng ag (Responses rs))
        then completed (app_mem wm) else completed (app_mem wm) @ [tid])
   \<and> completed (app (background_work eng clk sid prompt tid w)) = completed (app w) @ [tid]
   \<and> completed (app (resume_work_cold eng clk sid pre prompt tid w)) = completed (app w) @ [tid]
   \<and> completed (app (resume_work_fast eng clk sid ag rs tid w)) = completed (app w) @ [tid]"
proof (intro conjI)
  show "completed (app_mem (background_work_mem eng clk sid prompt tid wm))
     = (if suspended (eng (new_agent sid []) (Prompt prompt))
        then completed (app_mem wm) else completed (app_mem wm) @ [tid])"
    by (cases "eng (new_agent sid []) (Prompt prompt)")
       (simp_all add: background_work_mem_def completed_complete_async_task)
  show "completed (app_mem (resume_work_mem eng clk sid ag rs p tid wm))
     = (if suspended (eng ag (Responses rs))
        then completed (app_mem wm) else completed (app_mem wm) @ [tid])"
    by (cases "eng ag (Responses rs)")
       (simp_all add: resume_work_mem_def completed_complete_async_task)
  show "completed (app (background_work eng clk sid prompt tid w)) = completed (app w) @ [tid]"
    by (cases "eng (new_agent sid []) (Prompt prompt)")
       (simp_all add: background_work_def Let_def completed_complete_async_task)
  show "completed (app (resume_work_cold eng clk sid pre prompt tid w))
          = completed (app w) @ [tid]"
    by (cases "eng (new_agent sid pre) (Prompt prompt)")
       (simp_all add: resume_work_cold_def Let_def completed_complete_async_task)
  show "completed (app (resume_work_fast eng clk sid ag rs tid w)) = completed (app w) @ [tid]"
    by (cases "eng ag (Responses rs)")
       (simp_all add: resume_work_fast_def Let_def completed_complete_async_task)
qed

theorem host_signal_by_mode_witness:
  "completed (app_mem (background_work_mem engine_suspends clock0 ''s1'' ''delete /tmp/x'' 7
                         world_mem0)) = []
   \<and> completed (app_mem (background_work_mem engine_completes clock0 ''s1'' ''hello'' 7
                         world_mem0)) = [7]
   \<and> completed (app_mem (background_work_mem engine_raises clock0 ''s1'' ''hello'' 7
                         world_mem0)) = [7]
   \<and> completed (app (background_work engine_suspends clock0 ''s1'' ''delete /tmp/x'' 7
                       world0)) = [7]"
  using
    host_signal_by_mode [of engine_suspends clock0 "''s1''" "''delete /tmp/x''" 7 world_mem0
      "new_agent ''s1'' []" "[]" None world0 "[]"]
    host_signal_by_mode [of engine_completes clock0 "''s1''" "''hello''" 7 world_mem0
      "new_agent ''s1'' []" "[]" None world0 "[]"]
    host_signal_by_mode [of engine_raises clock0 "''s1''" "''hello''" 7 world_mem0
      "new_agent ''s1'' []" "[]" None world0 "[]"]
  by (simp add: engine_suspends_def engine_completes_def engine_raises_def
        result_interrupted_def result_done_def world_mem0_def world0_def host0_def)

section \<open>Approving and rejecting\<close>

lemma approve_loop_absent:
  "find (\<lambda>a. ap_interrupt_id a = iid) aps = None \<Longrightarrow>
   approve_loop clk iid rsp apr aps = (aps, False)"
  by (induction aps) (auto split: if_splits)

lemma reject_loop_absent:
  "find (\<lambda>a. ap_interrupt_id a = iid) aps = None \<Longrightarrow>
   reject_loop clk iid rsn apr aps = (aps, False)"
  by (induction aps) (auto split: if_splits)

lemma approve_loop_present:
  "find (\<lambda>a. ap_interrupt_id a = iid) aps = Some a0 \<Longrightarrow>
   snd (approve_loop clk iid rsp apr aps)
   \<and> find (\<lambda>a. ap_interrupt_id a = iid) (fst (approve_loop clk iid rsp apr aps))
       = Some (a0\<lparr>ap_status := ''approved'', ap_response := Some rsp,
                   ap_approver := Some apr, ap_updated_at := Some (iso clk)\<rparr>)"
  by (induction aps) (auto split: if_splits prod.splits)

lemma reject_loop_present:
  "find (\<lambda>a. ap_interrupt_id a = iid) aps = Some a0 \<Longrightarrow>
   snd (reject_loop clk iid rsn apr aps)
   \<and> find (\<lambda>a. ap_interrupt_id a = iid) (fst (reject_loop clk iid rsn apr aps))
       = Some (a0\<lparr>ap_status := ''rejected'', ap_response := Some ''n'',
                   ap_approver := Some apr, ap_rejection_reason := Some rsn,
                   ap_updated_at := Some (iso clk)\<rparr>)"
  by (induction aps) (auto split: if_splits prod.splits)


lemma pending_of_update:
  "pending_of (w\<lparr>pending_approvals := (pending_approvals w)(sid \<mapsto> aps)\<rparr>) sid = aps"
  by (simp add: pending_of_def)

lemma update_approval_status_item:
  "update_approval_status tbl clk sid iid status rsp apr (sid, iid) =
     Some ((case tbl (sid, iid) of
              Some it \<Rightarrow> it
            | None \<Rightarrow> map_of [(''session_id'', S sid), (''interrupt_id'', S iid)])
           (''status'' \<mapsto> S status, ''response'' \<mapsto> S rsp, ''approver'' \<mapsto> S apr,
            ''updated_at'' \<mapsto> S (iso clk)))"
  by (simp add: update_approval_status_def update_item_def split: option.split)

lemma get_approval_response_after_update:
  "status = ''approved'' \<or> status = ''rejected'' \<Longrightarrow>
   get_approval_response (update_approval_status tbl clk sid iid status rsp apr) sid iid
     = Some rsp"
  by (auto simp: get_approval_response_def update_approval_status_item)

lemma approve_request_mem_eq:
  assumes "pl ''interrupt_id'' = Some iid" and "iid \<noteq> []"
  shows "approve_request_mem wm clk sid pl =
     (if snd (approve_loop clk iid (payload_get pl ''response'' ''y'')
                (payload_get pl ''approver'' ''cli'') (pending_of wm sid))
      then (Approved sid iid (payload_get pl ''response'' ''y''),
            wm\<lparr>pending_approvals := (pending_approvals wm)
               (sid \<mapsto> fst (approve_loop clk iid (payload_get pl ''response'' ''y'')
                             (payload_get pl ''approver'' ''cli'') (pending_of wm sid)))\<rparr>)
      else (Error (''Approval not found: '' @ iid), wm))"
  using assms by (simp add: approve_request_mem_def Let_def split: prod.splits)

lemma reject_request_mem_eq:
  assumes "pl ''interrupt_id'' = Some iid" and "iid \<noteq> []"
  shows "reject_request_mem wm clk sid pl =
     (if snd (reject_loop clk iid (payload_get pl ''reason'' ''User rejected'')
                (payload_get pl ''approver'' ''cli'') (pending_of wm sid))
      then (Rejected sid iid (payload_get pl ''reason'' ''User rejected''),
            wm\<lparr>pending_approvals := (pending_approvals wm)
               (sid \<mapsto> fst (reject_loop clk iid (payload_get pl ''reason'' ''User rejected'')
                             (payload_get pl ''approver'' ''cli'') (pending_of wm sid)))\<rparr>)
      else (Error (''Approval not found: '' @ iid), wm))"
  using assms by (simp add: reject_request_mem_def Let_def split: prod.splits)

lemma approve_request_eq:
  assumes "pl ''interrupt_id'' = Some iid" and "iid \<noteq> []"
  shows "approve_request w clk sid pl =
     (Approved sid iid (payload_get pl ''response'' ''y''),
      w\<lparr>table := update_approval_status (table w) clk sid iid ''approved''
                    (payload_get pl ''response'' ''y'') (payload_get pl ''approver'' ''cli'')\<rparr>)"
  using assms by (simp add: approve_request_def Let_def)

lemma reject_request_eq:
  assumes "pl ''interrupt_id'' = Some iid" and "iid \<noteq> []"
  shows "reject_request w clk sid pl =
     (Rejected sid iid (payload_get pl ''reason'' ''User rejected''),
      w\<lparr>table := update_approval_status (table w) clk sid iid ''rejected'' ''n''
                    (payload_get pl ''approver'' ''cli'')\<rparr>)"
  using assms by (simp add: reject_request_def Let_def)

text \<open>
  Claim C1, as the code has it. Neither variant tests the status of the record it
  answers, so an answer on a record that is already approved or rejected is accepted and
  replaces status, response and approver. What holds: with a non-empty
  \<^verbatim>\<open>interrupt_id\<close>, an approve or reject call on an existing record succeeds whatever the
  record's status and stores the new status, response and approver in it (the first
  dictionary with that id in memory-only mode, the item under the composite key in the
  table); in memory-only mode a call whose interrupt id has no record fails with
  \<^verbatim>\<open>Approval not found\<close> and leaves the registry as it was.
\<close>

theorem answering_overwrites:
  assumes "pl ''interrupt_id'' = Some iid" and "iid \<noteq> []"
  shows "(find (\<lambda>a. ap_interrupt_id a = iid) (pending_of wm sid) = None \<longrightarrow>
            approve_request_mem wm clk sid pl = (Error (''Approval not found: '' @ iid), wm)
          \<and> reject_request_mem wm clk sid pl = (Error (''Approval not found: '' @ iid), wm))
       \<and> (find (\<lambda>a. ap_interrupt_id a = iid) (pending_of wm sid) = Some a0 \<longrightarrow>
            fst (approve_request_mem wm clk sid pl)
              = Approved sid iid (payload_get pl ''response'' ''y'')
          \<and> find (\<lambda>a. ap_interrupt_id a = iid)
                (pending_of (snd (approve_request_mem wm clk sid pl)) sid)
              = Some (a0\<lparr>ap_status := ''approved'',
                          ap_response := Some (payload_get pl ''response'' ''y''),
                          ap_approver := Some (payload_get pl ''approver'' ''cli''),
                          ap_updated_at := Some (iso clk)\<rparr>)
          \<and> fst (reject_request_mem wm clk sid pl)
              = Rejected sid iid (payload_get pl ''reason'' ''User rejected'')
          \<and> find (\<lambda>a. ap_interrupt_id a = iid)
                (pending_of (snd (reject_request_mem wm clk sid pl)) sid)
              = Some (a0\<lparr>ap_status := ''rejected'', ap_response := Some ''n'',
                          ap_approver := Some (payload_get pl ''approver'' ''cli''),
                          ap_rejection_reason
                            := Some (payload_get pl ''reason'' ''User rejected''),
                          ap_updated_at := Some (iso clk)\<rparr>))
       \<and> (table w (sid, iid) = Some it \<longrightarrow>
            fst (approve_request w clk sid pl)
              = Approved sid iid (payload_get pl ''response'' ''y'')
          \<and> table (snd (approve_request w clk sid pl)) (sid, iid)
              = Some (it(''status'' \<mapsto> S ''approved'',
                         ''response'' \<mapsto> S (payload_get pl ''response'' ''y''),
                         ''approver'' \<mapsto> S (payload_get pl ''approver'' ''cli''),
                         ''updated_at'' \<mapsto> S (iso clk)))
          \<and> fst (reject_request w clk sid pl)
              = Rejected sid iid (payload_get pl ''reason'' ''User rejected'')
          \<and> table (snd (reject_request w clk sid pl)) (sid, iid)
              = Some (it(''status'' \<mapsto> S ''rejected'', ''response'' \<mapsto> S ''n'',
                         ''approver'' \<mapsto> S (payload_get pl ''approver'' ''cli''),
                         ''updated_at'' \<mapsto> S (iso clk))))"
proof -
  note am = approve_request_mem_eq [of pl iid wm clk sid, OF assms]
    and rm = reject_request_mem_eq [of pl iid wm clk sid, OF assms]
    and ad = approve_request_eq [of pl iid w clk sid, OF assms]
    and rd = reject_request_eq [of pl iid w clk sid, OF assms]
  have absent: "approve_request_mem wm clk sid pl = (Error (''Approval not found: '' @ iid), wm)
      \<and> reject_request_mem wm clk sid pl = (Error (''Approval not found: '' @ iid), wm)"
    if "find (\<lambda>a. ap_interrupt_id a = iid) (pending_of wm sid) = None"
    using that by (simp add: am rm approve_loop_absent reject_loop_absent)
  have present: "fst (approve_request_mem wm clk sid pl)
              = Approved sid iid (payload_get pl ''response'' ''y'')
          \<and> find (\<lambda>a. ap_interrupt_id a = iid)
                (pending_of (snd (approve_request_mem wm clk sid pl)) sid)
              = Some (a0\<lparr>ap_status := ''approved'',
                          ap_response := Some (payload_get pl ''response'' ''y''),
                          ap_approver := Some (payload_get pl ''approver'' ''cli''),
                          ap_updated_at := Some (iso clk)\<rparr>)
          \<and> fst (reject_request_mem wm clk sid pl)
              = Rejected sid iid (payload_get pl ''reason'' ''User rejected'')
          \<and> find (\<lambda>a. ap_interrupt_id a = iid)
                (pending_of (snd (reject_request_mem wm clk sid pl)) sid)
              = Some (a0\<lparr>ap_status := ''rejected'', ap_response := Some ''n'',
                          ap_approver := Some (payload_get pl ''approver'' ''cli''),
                          ap_rejection_reason
                            := Some (payload_get pl ''reason'' ''User rejected''),
                          ap_updated_at := Some (iso clk)\<rparr>)"
    if "find (\<lambda>a. ap_interrupt_id a = iid) (pending_of wm sid) = Some a0"
    using approve_loop_present [OF that, of clk "payload_get pl ''response'' ''y''"
        "payload_get pl ''approver'' ''cli''"]
      reject_loop_present [OF that, of clk "payload_get pl ''reason'' ''User rejected''"
        "payload_get pl ''approver'' ''cli''"]
    by (simp add: am rm pending_of_update)
  have durable: "fst (approve_request w clk sid pl)
              = Approved sid iid (payload_get pl ''response'' ''y'')
          \<and> table (snd (approve_request w clk sid pl)) (sid, iid)
              = Some (it(''status'' \<mapsto> S ''approved'',
                         ''response'' \<mapsto> S (payload_get pl ''response'' ''y''),
                         ''approver'' \<mapsto> S (payload_get pl ''approver'' ''cli''),
                         ''updated_at'' \<mapsto> S (iso clk)))
          \<and> fst (reject_request w clk sid pl)
              = Rejected sid iid (payload_get pl ''reason'' ''User rejected'')
          \<and> table (snd (reject_request w clk sid pl)) (sid, iid)
              = Some (it(''status'' \<mapsto> S ''rejected'', ''response'' \<mapsto> S ''n'',
                         ''approver'' \<mapsto> S (payload_get pl ''approver'' ''cli''),
                         ''updated_at'' \<mapsto> S (iso clk)))"
    if "table w (sid, iid) = Some it"
    using that by (simp add: ad rd update_approval_status_item)
  from absent present durable show ?thesis by blast
qed

lemma pending_of_world_mem1:
  "pending_of world_mem1 ''s1'' = [new_approval clock0 ''s1'' interrupt1]"
  by (simp add: world_mem1_def background_work_mem_def engine_suspends_def
        result_interrupted_def append_pending_def pending_of_def world_mem0_def)

lemma pending_of_world_mem0: "pending_of world_mem0 ''s1'' = []"
  by (simp add: pending_of_def world_mem0_def)

theorem answering_overwrites_witness:
  "approve_request_mem world_mem0 clock0 ''s1'' approve_i1
     = (Error ''Approval not found: i1'', world_mem0)
   \<and> fst (reject_request_mem world_mem1 clock0 ''s1'' reject_i1)
     = Rejected ''s1'' ''i1'' ''too risky''
   \<and> map ap_status (pending_of (snd (reject_request_mem world_mem1 clock0 ''s1'' reject_i1))
                      ''s1'') = [''rejected'']"
proof -
  have a: "approve_i1 ''interrupt_id'' = Some ''i1''" "reject_i1 ''interrupt_id'' = Some ''i1''"
    by (simp_all add: approve_i1_def reject_i1_def)
  have n: "''i1'' \<noteq> []" by simp
  have f0: "find (\<lambda>a. ap_interrupt_id a = ''i1'') (pending_of world_mem0 ''s1'') = None"
    by (simp add: pending_of_world_mem0)
  have f1: "find (\<lambda>a. ap_interrupt_id a = ''i1'') (pending_of world_mem1 ''s1'')
              = Some (new_approval clock0 ''s1'' interrupt1)"
    by (simp add: pending_of_world_mem1 new_approval_def interrupt1_def)
  have r: "payload_get reject_i1 ''reason'' ''User rejected'' = ''too risky''"
    by (simp add: payload_get_def reject_i1_def)
  from answering_overwrites [of approve_i1 "''i1''" world_mem0 "''s1''" clock0, OF a(1) n] f0
  have c1: "approve_request_mem world_mem0 clock0 ''s1'' approve_i1
              = (Error ''Approval not found: i1'', world_mem0)"
    by simp
  from answering_overwrites [of reject_i1 "''i1''" world_mem1 "''s1''" clock0
         "new_approval clock0 ''s1'' interrupt1", OF a(2) n] f1 r
  have c2: "fst (reject_request_mem world_mem1 clock0 ''s1'' reject_i1)
              = Rejected ''s1'' ''i1'' ''too risky''"
    and c3: "find (\<lambda>a. ap_interrupt_id a = ''i1'')
               (pending_of (snd (reject_request_mem world_mem1 clock0 ''s1'' reject_i1)) ''s1'')
             \<noteq> None"
    by simp_all
  have c4: "map ap_status (pending_of (snd (reject_request_mem world_mem1 clock0 ''s1''
               reject_i1)) ''s1'') = [''rejected'']"
    by (simp add: reject_request_mem_def Let_def a r pending_of_world_mem1 new_approval_def
          interrupt1_def pending_of_update)
  show ?thesis using c1 c2 c4 by simp
qed

text \<open>
  The claim C1 as it is worded fails in both variants. In memory-only mode, after
  \<^verbatim>\<open>alice\<close> has approved interrupt \<^verbatim>\<open>i1\<close> with \<^verbatim>\<open>"y"\<close>, a reject by \<^verbatim>\<open>bob\<close> is
  accepted and the stored status, response and approver change. With the durable store
  the same second answer replaces the recorded response.
\<close>

theorem answering_overwrites_counterexample:
  "terminal_in_list
     (pending_of (snd (approve_request_mem world_mem1 clock0 ''s1'' approve_i1)) ''s1'') ''i1''
   \<and> map ap_response
       (pending_of (snd (approve_request_mem world_mem1 clock0 ''s1'' approve_i1)) ''s1'')
       = [Some ''y'']
   \<and> fst (reject_request_mem (snd (approve_request_mem world_mem1 clock0 ''s1'' approve_i1))
            clock0 ''s1'' reject_i1) = Rejected ''s1'' ''i1'' ''too risky''
   \<and> map (\<lambda>a. (ap_status a, ap_response a, ap_approver a))
       (pending_of
          (snd (reject_request_mem (snd (approve_request_mem world_mem1 clock0 ''s1'' approve_i1))
                  clock0 ''s1'' reject_i1)) ''s1'')
       = [(''rejected'', Some ''n'', Some ''bob'')]
   \<and> get_approval_response (table (snd (approve_request world1 clock0 ''s1'' approve_i1)))
        ''s1'' ''i1'' = Some ''y''
   \<and> fst (reject_request (snd (approve_request world1 clock0 ''s1'' approve_i1))
            clock0 ''s1'' reject_i1) = Rejected ''s1'' ''i1'' ''too risky''
   \<and> get_approval_response
        (table (snd (reject_request (snd (approve_request world1 clock0 ''s1'' approve_i1))
                       clock0 ''s1'' reject_i1)))
        ''s1'' ''i1'' = Some ''n''"
proof -
  have a: "approve_i1 ''interrupt_id'' = Some ''i1''" "reject_i1 ''interrupt_id'' = Some ''i1''"
    by (simp_all add: approve_i1_def reject_i1_def)
  have g: "payload_get approve_i1 ''response'' ''y'' = ''y''"
    "payload_get approve_i1 ''approver'' ''cli'' = ''alice''"
    "payload_get reject_i1 ''reason'' ''User rejected'' = ''too risky''"
    "payload_get reject_i1 ''approver'' ''cli'' = ''bob''"
    by (simp_all add: payload_get_def approve_i1_def reject_i1_def)
  have m1: "pending_of (snd (approve_request_mem world_mem1 clock0 ''s1'' approve_i1)) ''s1''
          = [(new_approval clock0 ''s1'' interrupt1)
               \<lparr>ap_status := ''approved'', ap_response := Some ''y'',
                 ap_approver := Some ''alice'', ap_updated_at := Some (iso clock0)\<rparr>]"
    by (simp add: approve_request_mem_def Let_def a g pending_of_world_mem1 new_approval_def
          interrupt1_def pending_of_update)
  have m2: "reject_request_mem (snd (approve_request_mem world_mem1 clock0 ''s1'' approve_i1))
              clock0 ''s1'' reject_i1
          = (Rejected ''s1'' ''i1'' ''too risky'',
             (snd (approve_request_mem world_mem1 clock0 ''s1'' approve_i1))
               \<lparr>pending_approvals :=
                  (pending_approvals (snd (approve_request_mem world_mem1 clock0 ''s1''
                      approve_i1)))
                  (''s1'' \<mapsto> [(new_approval clock0 ''s1'' interrupt1)
                      \<lparr>ap_status := ''rejected'', ap_response := Some ''n'',
                        ap_approver := Some ''bob'', ap_rejection_reason := Some ''too risky'',
                        ap_updated_at := Some (iso clock0)\<rparr>])\<rparr>)"
    by (simp add: reject_request_mem_def [of "snd (approve_request_mem world_mem1 clock0 ''s1''
          approve_i1)"] Let_def a g m1 new_approval_def interrupt1_def)
  have d1: "get_approval_response (table (snd (approve_request world1 clock0 ''s1'' approve_i1)))
              ''s1'' ''i1'' = Some ''y''"
    by (simp add: approve_request_def Let_def a g get_approval_response_after_update)
  have d2: "reject_request (snd (approve_request world1 clock0 ''s1'' approve_i1))
              clock0 ''s1'' reject_i1
          = (Rejected ''s1'' ''i1'' ''too risky'',
             (snd (approve_request world1 clock0 ''s1'' approve_i1))
               \<lparr>table := update_approval_status
                   (table (snd (approve_request world1 clock0 ''s1'' approve_i1)))
                   clock0 ''s1'' ''i1'' ''rejected'' ''n'' ''bob''\<rparr>)"
    by (simp add: reject_request_def [of "snd (approve_request world1 clock0 ''s1''
          approve_i1)"] Let_def a g)
  show ?thesis
    by (simp add: m1 m2 d1 d2 pending_of_update terminal_in_list_def
          get_approval_response_after_update new_approval_def interrupt1_def)
qed



section \<open>Resuming\<close>



lemma truthy_iff: "truthy x \<longleftrightarrow> (\<exists>y. x = Some y \<and> y \<noteq> [])"
  by (cases x) auto


lemma fast_scan_answered:
  "\<forall>i\<in>set ints. answered tbl sid i \<Longrightarrow>
   fast_scan tbl sid ints acc =
     Inr (acc @ map (\<lambda>i. \<lparr>interruptId = int_id i,
                           response = the (get_approval_response tbl sid (int_id i))\<rparr>) ints)"
  by (induction ints arbitrary: acc) (auto simp: answered_def truthy_iff)












section \<open>The saved state after a resumption\<close>

lemma state_key_kept_by_result:
  "get_agent_state (save_agent_result tbl clk sid r) sid = get_agent_state tbl sid"
  by (simp add: get_agent_state_def save_agent_result_def put_item_def)

lemma state_after_save:
  "get_agent_state (save_agent_state tbl clk sid s) sid = Some s"
  by (simp add: get_agent_state_def save_agent_state_def put_item_def)

text \<open>
  Claim C6, as the code has it. No code path deletes an item of the table, so the saved
  state outlives the resumption. What holds: when a resumed run, cold or fast, ends
  without suspending (the engine returns another stop reason, or raises), the saved state
  read back for the session is the one that was there before; when a cold resumed run
  suspends again, the saved state read back is the new one, with the original prompt and
  the new interrupts.
\<close>

theorem saved_state_is_kept:
  "(\<not> suspended (eng (new_agent sid pre) (Prompt p)) \<longrightarrow>
      get_agent_state (table (resume_work_cold eng clk sid pre p tid w)) sid
        = get_agent_state (table w) sid)
   \<and> (\<not> suspended (eng ag (Responses rs)) \<longrightarrow>
      get_agent_state (table (resume_work_fast eng clk sid ag rs tid w)) sid
        = get_agent_state (table w) sid)
   \<and> (suspended (eng (new_agent sid pre) (Prompt p)) \<longrightarrow>
      get_agent_state (table (resume_work_cold eng clk sid pre p tid w)) sid
        = Some \<lparr>st_prompt = Some p,
                 st_interrupts
                   = Some (outcome_interrupts (eng (new_agent sid pre) (Prompt p)))\<rparr>)"
proof (intro conjI impI)
  assume "\<not> suspended (eng (new_agent sid pre) (Prompt p))"
  then show "get_agent_state (table (resume_work_cold eng clk sid pre p tid w)) sid
        = get_agent_state (table w) sid"
    by (cases "eng (new_agent sid pre) (Prompt p)")
       (simp_all add: resume_work_cold_def Let_def state_key_kept_by_result)
next
  assume "\<not> suspended (eng ag (Responses rs))"
  then show "get_agent_state (table (resume_work_fast eng clk sid ag rs tid w)) sid
        = get_agent_state (table w) sid"
    by (cases "eng ag (Responses rs)")
       (simp_all add: resume_work_fast_def Let_def state_key_kept_by_result)
next
  assume "suspended (eng (new_agent sid pre) (Prompt p))"
  then show "get_agent_state (table (resume_work_cold eng clk sid pre p tid w)) sid
        = Some \<lparr>st_prompt = Some p,
                 st_interrupts
                   = Some (outcome_interrupts (eng (new_agent sid pre) (Prompt p)))\<rparr>"
    by (cases "eng (new_agent sid pre) (Prompt p)")
       (simp_all add: resume_work_cold_def Let_def state_after_save)
qed

lemma saved_state_world2:
  "get_agent_state (table world2) ''s1''
     = Some \<lparr>st_prompt = Some ''delete /tmp/x'', st_interrupts = Some [interrupt1]\<rparr>"
  by (simp add: world2_def restart_def approve_request_def Let_def approve_i1_def
        update_approval_status_def update_item_def world1_def background_work_def
        engine_suspends_def result_interrupted_def world0_def get_agent_state_def
        save_agent_state_def put_item_def)

theorem saved_state_is_kept_witness:
  "get_agent_state
     (table (resume_work_cold engine_raises clock0 ''s1'' [(''delete_files'', ''y'')]
               ''delete /tmp/x'' 8 world2)) ''s1''
     = Some \<lparr>st_prompt = Some ''delete /tmp/x'', st_interrupts = Some [interrupt1]\<rparr>
   \<and> get_agent_state
       (table (resume_work_cold engine_suspends clock0 ''s1'' [] ''again'' 8 world2)) ''s1''
     = Some \<lparr>st_prompt = Some ''again'', st_interrupts = Some [interrupt1]\<rparr>"
  using
    saved_state_is_kept [of engine_raises "''s1''" "[(''delete_files'', ''y'')]"
      "''delete /tmp/x''" clock0 8 world2 "new_agent ''s1'' []" "[]"]
    saved_state_is_kept [of engine_suspends "''s1''" "[]" "''again''" clock0 8 world2
      "new_agent ''s1'' []" "[]"]
    saved_state_world2
  by (simp add: engine_raises_def engine_suspends_def result_interrupted_def)

text \<open>
  The claim C6 as it is worded fails: session \<^verbatim>\<open>s1\<close> suspends, its interrupt is approved,
  the process restarts, and the cold resumption completes. The result is stored, and the
  saved state of the session is still read back.
\<close>

theorem saved_state_is_kept_counterexample:
  "fst (resume_agent_task world2 8 ''s1'') = ResumingPreApproved ''s1'' 8 [''delete_files'']
   \<and> get_agent_result
       (table (resume_work_cold engine_completes clock0 ''s1'' [(''delete_files'', ''y'')]
                 ''delete /tmp/x'' 8 world2)) ''s1''
     = Some (ResultMessage ''done'' ''end_turn'')
   \<and> get_agent_state
       (table (resume_work_cold engine_completes clock0 ''s1'' [(''delete_files'', ''y'')]
                 ''delete /tmp/x'' 8 world2)) ''s1''
     = Some \<lparr>st_prompt = Some ''delete /tmp/x'', st_interrupts = Some [interrupt1]\<rparr>"
proof -
  have t: "table world2 = update_approval_status (table world1) clock0 ''s1'' ''i1''
             ''approved'' ''y'' ''alice''"
    by (simp add: world2_def restart_def approve_request_def Let_def approve_i1_def
          payload_get_def)
  have g: "get_approval_response (table world2) ''s1'' ''i1'' = Some ''y''"
    by (simp add: t get_approval_response_after_update)
  have s: "session_states world2 ''s1'' = None"
    by (simp add: world2_def restart_def)
  have r: "fst (resume_agent_task world2 8 ''s1'')
             = ResumingPreApproved ''s1'' 8 [''delete_files'']"
    by (simp add: resume_agent_task_def Let_def s saved_state_world2 g interrupt1_def
          reason_tool_def)
  have k: "get_agent_state
       (table (resume_work_cold engine_completes clock0 ''s1'' [(''delete_files'', ''y'')]
                 ''delete /tmp/x'' 8 world2)) ''s1''
     = get_agent_state (table world2) ''s1''"
    by (simp add: resume_work_cold_def Let_def engine_completes_def result_done_def
          state_key_kept_by_result)
  have q: "get_agent_result
       (table (resume_work_cold engine_completes clock0 ''s1'' [(''delete_files'', ''y'')]
                 ''delete /tmp/x'' 8 world2)) ''s1''
     = Some (ResultMessage ''done'' ''end_turn'')"
    by (simp add: resume_work_cold_def Let_def engine_completes_def result_done_def
          get_agent_result_def save_agent_result_def put_item_def)
  show ?thesis using r k q saved_state_world2 by simp
qed

section \<open>Resuming needs every answer\<close>











section \<open>The cold resumption\<close>









end
